theory Spec2Isabelle
  imports Complex_Main
begin

section \<open>Sprite rendering script: data model\<close>

text \<open>
  The script \<^verbatim>\<open>scripts/sprites/render_sprites.py\<close> drives a 3D application through its
  scene API. Coordinates are Python floats; they are modelled as real numbers (rounding
  is not modelled). Exceptions are values of type \<open>py_error\<close>, and a function that
  can raise returns \<open>py_error + 'a\<close>.
\<close>

datatype py_error = ValueError | ZeroDivisionError | OSError

definition ebind :: "py_error + 'a \<Rightarrow> ('a \<Rightarrow> py_error + 'b) \<Rightarrow> py_error + 'b" where
  "ebind m f = (case m of Inl e \<Rightarrow> Inl e | Inr x \<Rightarrow> f x)"

type_synonym vec3 = "real \<times> real \<times> real"

text \<open>Indexing a vertex: \<^verbatim>\<open>v[0]\<close>, \<^verbatim>\<open>v[1]\<close>, \<^verbatim>\<open>v[2]\<close>.\<close>

definition vx :: "vec3 \<Rightarrow> real" where
  "vx v = fst v"

definition vy :: "vec3 \<Rightarrow> real" where
  "vy v = fst (snd v)"

definition vz :: "vec3 \<Rightarrow> real" where
  "vz v = snd (snd v)"

text \<open>
  The host gives every object a bounding box of exactly eight corners (an array of
  8 by 3 floats); \<open>corners\<close> is the sequence a \<^verbatim>\<open>for v in bbox\<close> loop walks.
\<close>

datatype bbox = BBox vec3 vec3 vec3 vec3 vec3 vec3 vec3 vec3

fun corners :: "bbox \<Rightarrow> vec3 list" where
  "corners (BBox a b c d e f g h) = [a, b, c, d, e, f, g, h]"

text \<open>
  A scene object, with the attributes the script reads. The field \<open>matrix_world\<close> is
  the action \<^verbatim>\<open>v -> obj.matrix_world @ Vector(v)\<close> of the object's world matrix on a
  point; the matrix product is the host's, so it is kept as a function.
\<close>

record object =
  type :: string
  name :: string
  bound_box :: bbox
  matrix_world :: "vec3 \<Rightarrow> vec3"

section \<open>Configuration\<close>

definition BASE_WIDTH :: int where
  "BASE_WIDTH = 512"

text \<open>Python's \<^verbatim>\<open>int(x)\<close> on a float truncates towards zero.\<close>

definition py_int :: "real \<Rightarrow> int" where
  "py_int x = (if 0 \<le> x then \<lfloor>x\<rfloor> else \<lceil>x\<rceil>)"

definition BASE_HEIGHT :: int where
  "BASE_HEIGHT = py_int (512 * 52 / 60)"

definition EXCLUDE_PATTERNS :: "string list" where
  "EXCLUDE_PATTERNS =
     [''plane'', ''base'', ''floor'', ''platform'', ''ground'',
      ''hex'', ''hexagon'', ''hexagone'', ''socle'',
      ''support'', ''stand'', ''pad'']"

section \<open>Strings and sequences\<close>

text \<open>
  \<^verbatim>\<open>str.lower()\<close>, on the ASCII letters: a character from \<open>A\<close> to \<open>Z\<close> moves to
  its lower-case letter, every other character stays.
\<close>

definition lower_char :: "char \<Rightarrow> char" where
  "lower_char c =
     (case map_of (zip ''ABCDEFGHIJKLMNOPQRSTUVWXYZ'' ''abcdefghijklmnopqrstuvwxyz'') c of
        Some l \<Rightarrow> l
      | None \<Rightarrow> c)"

definition lower :: "string \<Rightarrow> string" where
  "lower s = map lower_char s"

fun startswith :: "string \<Rightarrow> string \<Rightarrow> bool" where
  "startswith s [] = True"
| "startswith [] (p # ps) = False"
| "startswith (c # cs) (p # ps) = (c = p \<and> startswith cs ps)"

text \<open>\<^verbatim>\<open>pattern in s\<close>: the pattern occurs in \<open>s\<close> as a contiguous substring.\<close>

fun str_in :: "string \<Rightarrow> string \<Rightarrow> bool" where
  "str_in p [] = (p = [])"
| "str_in p (c # cs) = (startswith (c # cs) p \<or> str_in p cs)"

text \<open>
  The loop \<^verbatim>\<open>for pattern in EXCLUDE_PATTERNS: if pattern in name_lower: return True\<close>;
  \<open>True\<close> when the loop returns, \<open>False\<close> when it runs to its end.
\<close>

fun matches_pattern :: "string list \<Rightarrow> string \<Rightarrow> bool" where
  "matches_pattern [] name_lower = False"
| "matches_pattern (pattern # rest) name_lower =
     (if str_in pattern name_lower then True else matches_pattern rest name_lower)"

text \<open>
  \<^verbatim>\<open>max(seq)\<close> and \<^verbatim>\<open>min(seq)\<close> on a sequence: \<^verbatim>\<open>ValueError\<close> on an empty one,
  otherwise the first element is kept until a strictly larger (smaller) one comes.
\<close>

fun max_seq :: "real list \<Rightarrow> py_error + real" where
  "max_seq [] = Inl ValueError"
| "max_seq (x # xs) = Inr (fold (\<lambda>v m. if m < v then v else m) xs x)"

fun min_seq :: "real list \<Rightarrow> py_error + real" where
  "min_seq [] = Inl ValueError"
| "min_seq (x # xs) = Inr (fold (\<lambda>v m. if v < m then v else m) xs x)"

text \<open>Float division \<^verbatim>\<open>a / b\<close>: \<^verbatim>\<open>ZeroDivisionError\<close> when \<open>b\<close> is zero.\<close>

definition py_div :: "real \<Rightarrow> real \<Rightarrow> py_error + real" where
  "py_div a b = (if b = 0 then Inl ZeroDivisionError else Inr (a / b))"

section \<open>The object filter\<close>

text \<open>The extent \<^verbatim>\<open>max(cs) - min(cs)\<close> of a list of coordinates.\<close>

definition extent :: "real list \<Rightarrow> py_error + real" where
  "extent cs = ebind (max_seq cs) (\<lambda>hi. ebind (min_seq cs) (\<lambda>lo. Inr (hi - lo)))"

definition z_height :: "object \<Rightarrow> py_error + real" where
  "z_height obj = extent (map vz (corners (bound_box obj)))"

definition xy_size :: "object \<Rightarrow> py_error + real" where
  "xy_size obj =
     ebind (extent (map vx (corners (bound_box obj)))) (\<lambda>dx.
     ebind (extent (map vy (corners (bound_box obj)))) (\<lambda>dy.
     Inr (max dx dy)))"

text \<open>
  \<^verbatim>\<open>xy_size > 0 and z_height / xy_size < 0.05\<close>: the right operand of \<^verbatim>\<open>and\<close> is
  evaluated only when the left one holds.
\<close>

definition is_flat :: "real \<Rightarrow> real \<Rightarrow> py_error + bool" where
  "is_flat zh xy =
     (if xy > 0 then ebind (py_div zh xy) (\<lambda>ratio. Inr (ratio < 0.05)) else Inr False)"

definition should_exclude_object :: "object \<Rightarrow> py_error + bool" where
  "should_exclude_object obj =
     (if type obj \<noteq> ''MESH'' then Inr False
      else if matches_pattern EXCLUDE_PATTERNS (lower (name obj)) then Inr True
      else ebind (z_height obj) (\<lambda>zh.
           ebind (xy_size obj) (\<lambda>xy.
           ebind (is_flat zh xy) (\<lambda>flat.
           if flat then Inr True else Inr False))))"

section \<open>Floats with infinities\<close>

text \<open>
  The framing code starts its running minimum and maximum at \<^verbatim>\<open>float('inf')\<close> and
  \<^verbatim>\<open>float('-inf')\<close>, so the values it computes and stores in the camera are floats
  with the two infinities and not-a-number beside the finite values.
\<close>

datatype pyfloat = Fin real | PInf | NInf | NaN

text \<open>\<^verbatim>\<open>a < b\<close> on floats; a comparison with not-a-number is false.\<close>

fun pf_lt :: "pyfloat \<Rightarrow> pyfloat \<Rightarrow> bool" where
  "pf_lt (Fin a) (Fin b) = (a < b)"
| "pf_lt (Fin a) PInf = True"
| "pf_lt NInf (Fin b) = True"
| "pf_lt NInf PInf = True"
| "pf_lt a b = False"

text \<open>
  The two-argument \<^verbatim>\<open>min(a, b)\<close> and \<^verbatim>\<open>max(a, b)\<close>: the first argument is kept
  unless the second is strictly smaller (larger).
\<close>

definition min2 :: "pyfloat \<Rightarrow> pyfloat \<Rightarrow> pyfloat" where
  "min2 a b = (if pf_lt b a then b else a)"

definition max2 :: "pyfloat \<Rightarrow> pyfloat \<Rightarrow> pyfloat" where
  "max2 a b = (if pf_lt a b then b else a)"

fun pf_neg :: "pyfloat \<Rightarrow> pyfloat" where
  "pf_neg (Fin a) = Fin (- a)"
| "pf_neg PInf = NInf"
| "pf_neg NInf = PInf"
| "pf_neg NaN = NaN"

fun pf_add :: "pyfloat \<Rightarrow> pyfloat \<Rightarrow> pyfloat" where
  "pf_add (Fin a) (Fin b) = Fin (a + b)"
| "pf_add NaN b = NaN"
| "pf_add a NaN = NaN"
| "pf_add PInf NInf = NaN"
| "pf_add NInf PInf = NaN"
| "pf_add PInf b = PInf"
| "pf_add a PInf = PInf"
| "pf_add NInf b = NInf"
| "pf_add a NInf = NInf"

definition pf_sub :: "pyfloat \<Rightarrow> pyfloat \<Rightarrow> pyfloat" where
  "pf_sub a b = pf_add a (pf_neg b)"

text \<open>An infinity of the sign of \<open>a\<close>; not-a-number for zero times infinity.\<close>

definition inf_signed :: "real \<Rightarrow> pyfloat" where
  "inf_signed a = (if 0 < a then PInf else if a < 0 then NInf else NaN)"

fun pf_mul :: "pyfloat \<Rightarrow> pyfloat \<Rightarrow> pyfloat" where
  "pf_mul (Fin a) (Fin b) = Fin (a * b)"
| "pf_mul NaN b = NaN"
| "pf_mul a NaN = NaN"
| "pf_mul (Fin a) PInf = inf_signed a"
| "pf_mul (Fin a) NInf = inf_signed (- a)"
| "pf_mul PInf (Fin b) = inf_signed b"
| "pf_mul NInf (Fin b) = inf_signed (- b)"
| "pf_mul PInf PInf = PInf"
| "pf_mul NInf NInf = PInf"
| "pf_mul PInf NInf = NInf"
| "pf_mul NInf PInf = NInf"

text \<open>
  Float division raises \<^verbatim>\<open>ZeroDivisionError\<close> on a zero divisor, whatever the
  dividend.
\<close>

fun pf_div :: "pyfloat \<Rightarrow> pyfloat \<Rightarrow> py_error + pyfloat" where
  "pf_div (Fin a) (Fin b) = (if b = 0 then Inl ZeroDivisionError else Inr (Fin (a / b)))"
| "pf_div PInf (Fin b) =
     (if b = 0 then Inl ZeroDivisionError else Inr (if 0 < b then PInf else NInf))"
| "pf_div NInf (Fin b) =
     (if b = 0 then Inl ZeroDivisionError else Inr (if 0 < b then NInf else PInf))"
| "pf_div NaN (Fin b) = (if b = 0 then Inl ZeroDivisionError else Inr NaN)"
| "pf_div a NaN = Inr NaN"
| "pf_div (Fin a) b = Inr (Fin 0)"
| "pf_div a b = Inr NaN"

text \<open>True division \<^verbatim>\<open>x / y\<close> of two integers, a float.\<close>

definition int_truediv :: "int \<Rightarrow> int \<Rightarrow> py_error + pyfloat" where
  "int_truediv x y = (if y = 0 then Inl ZeroDivisionError else Inr (Fin (real_of_int x / real_of_int y)))"

section \<open>The scene\<close>

text \<open>
  The camera and the lights are scene objects of the types \<^verbatim>\<open>CAMERA\<close> and
  \<^verbatim>\<open>LIGHT\<close>, never \<^verbatim>\<open>MESH\<close>; the state keeps them in fields of their own, beside
  the list of the objects linked from a model file.
\<close>

record camera =
  cam_name :: string
  cam_type :: string
  location :: "pyfloat \<times> pyfloat \<times> pyfloat"
  rotation_euler :: "real \<times> real \<times> real"
  ortho_scale :: pyfloat

record light =
  light_name :: string
  light_type :: string
  light_location :: "real \<times> real \<times> real"
  energy :: real
  light_rotation :: "real \<times> real \<times> real"

text \<open>What one \<^verbatim>\<open>bpy.ops.render.render(write_still=True)\<close> writes, and from what.\<close>

record render_output =
  out_path :: string
  out_resolution :: "int \<times> int"
  out_percentage :: int
  out_camera :: "camera option"
  out_objects :: "object list"

record state =
  objects :: "object list"
  scene_camera :: "camera option"
  lights :: "light list"
  engine :: string
  samples :: int
  use_denoising :: bool
  film_transparent :: bool
  file_format :: string
  color_mode :: string
  resolution_x :: int
  resolution_y :: int
  resolution_percentage :: int
  filepath :: string
  created_dirs :: "string list"
  stdout :: "string list"
  rendered :: "render_output list"

text \<open>
  What the script is given by its surroundings: the two directories (computed from the
  script's own path); which paths are files on disk (\<^verbatim>\<open>Path.exists()\<close>); what a
  library load of a path yields, the object list of the file (an entry the host could
  not load is \<open>None\<close>) or nothing when the host cannot read the path as a model file
  and the load raises \<^verbatim>\<open>OSError\<close>; and the orthographic scale of a camera the host
  has just created. A file can be on disk and still fail to load.
\<close>

record host =
  MODELS_DIR :: string
  OUTPUT_DIR :: string
  file_exists :: "string \<Rightarrow> bool"
  blend_files :: "string \<rightharpoonup> object option list"
  new_ortho_scale :: pyfloat

definition print :: "string \<Rightarrow> state \<Rightarrow> state" where
  "print line s = s\<lparr>stdout := stdout s @ [line]\<rparr>"

text \<open>Joining a directory and a file name, \<^verbatim>\<open>DIR / name\<close>.\<close>

definition path_join :: "string \<Rightarrow> string \<Rightarrow> string" where
  "path_join dir file = dir @ ''/'' @ file"

definition UNIT_CONFIG :: "(string \<times> string \<times> int \<times> int) list" where
  "UNIT_CONFIG =
     [(''3dprint_char'', ''tank'', 1, 1),
      (''3dprint_gros_tas'', ''supertank'', 1, 1),
      (''3dprint_crabe'', ''crab'', 1, 1),
      (''3dprint_pondeuse_meteo'', ''converter'', 1, 1),
      (''3dprint_barge'', ''barge'', 2, 1),
      (''3dPrint_vedette'', ''motorboat'', 1, 1),
      (''3dprint_pont'', ''bridge'', 1, 1),
      (''3dprint_astronef'', ''astronef'', 2, 2),
      (''3dprint_marqueur'', ''marker'', 1, 1)]"

section \<open>Scene setup, camera and lights\<close>

text \<open>
  \<^verbatim>\<open>setup_scene\<close> selects and deletes every object of the scene, the camera and the
  lights of an earlier model among them, and sets the render options. (The world
  lighting it also sets is not part of the state.)
\<close>

definition setup_scene :: "state \<Rightarrow> state" where
  "setup_scene s =
     s\<lparr>objects := [], scene_camera := None, lights := [],
       engine := ''CYCLES'', samples := 64, use_denoising := True,
       film_transparent := True, file_format := ''PNG'', color_mode := ''RGBA''\<rparr>"

text \<open>
  \<^verbatim>\<open>create_camera\<close> returns the new camera; it is also the scene's camera, and
  \<open>scene_camera\<close> is updated by the caller when the camera is changed later.
\<close>

definition create_camera :: "host \<Rightarrow> int \<Rightarrow> int \<Rightarrow> state \<Rightarrow> camera \<times> state" where
  "create_camera h width_hexes height_hexes s =
     (let camera = \<lparr>cam_name = ''RenderCamera'', cam_type = ''ORTHO'',
                     location = (Fin 0, Fin 0, Fin 10), rotation_euler = (0, 0, 0),
                     ortho_scale = new_ortho_scale h\<rparr>
      in (camera, s\<lparr>scene_camera := Some camera\<rparr>))"

definition radians :: "real \<Rightarrow> real" where
  "radians d = d * pi / 180"

definition create_lights :: "state \<Rightarrow> state" where
  "create_lights s =
     (let key_light = \<lparr>light_name = ''KeyLight'', light_type = ''SUN'',
                        light_location = (5, - 5, 10), energy = 3,
                        light_rotation = (radians 45, radians 15, radians 45)\<rparr>;
          fill_light = \<lparr>light_name = ''FillLight'', light_type = ''SUN'',
                         light_location = (- 5, 5, 8), energy = 1.5,
                         light_rotation = (radians 50, radians (- 15), radians (- 45))\<rparr>;
          rim_light = \<lparr>light_name = ''RimLight'', light_type = ''SUN'',
                        light_location = (0, 5, 12), energy = 1,
                        light_rotation = (radians 30, 0, 0)\<rparr>
      in s\<lparr>lights := lights s @ [key_light, fill_light, rim_light]\<rparr>)"

section \<open>Framing the camera\<close>

type_synonym rect = "pyfloat \<times> pyfloat \<times> pyfloat \<times> pyfloat"

text \<open>
  One step of the inner loop, on a world-space vertex; the rectangle is
  \<open>(min_x, max_x, min_y, max_y)\<close>.
\<close>

fun fit_vertex :: "vec3 \<Rightarrow> rect \<Rightarrow> rect" where
  "fit_vertex world_vertex (min_x, max_x, min_y, max_y) =
     (min2 min_x (Fin (vx world_vertex)), max2 max_x (Fin (vx world_vertex)),
      min2 min_y (Fin (vy world_vertex)), max2 max_y (Fin (vy world_vertex)))"

text \<open>The inner loop over the corners of one object, each moved to world space.\<close>

definition fit_object :: "object \<Rightarrow> rect \<Rightarrow> rect" where
  "fit_object obj r =
     fold (\<lambda>vertex. fit_vertex (matrix_world obj vertex)) (corners (bound_box obj)) r"

definition fit_bounds :: "object list \<Rightarrow> rect" where
  "fit_bounds meshes = fold fit_object meshes (PInf, NInf, PInf, NInf)"

text \<open>
  The camera is changed in place in the source; here the changed camera is returned.
  An exception can only come from the two divisions by the aspect ratio, which are
  evaluated before the first assignment to the camera.
\<close>

definition fit_camera_to_objects :: "camera \<Rightarrow> real \<Rightarrow> state \<Rightarrow> py_error + camera" where
  "fit_camera_to_objects camera padding s =
     (let meshes = filter (\<lambda>obj. type obj = ''MESH'') (objects s) in
      if meshes = [] then Inr camera
      else
        case fit_bounds meshes of (min_x, max_x, min_y, max_y) \<Rightarrow>
        let width = pf_sub max_x min_x;
            height = pf_sub max_y min_y
        in ebind (int_truediv (resolution_x s) (resolution_y s)) (\<lambda>aspect.
           ebind (pf_div width aspect) (\<lambda>width_by_aspect.
           let scale = (if pf_lt height width_by_aspect
                        then pf_mul width (Fin padding)
                        else pf_mul (pf_mul height aspect) (Fin padding))
           in ebind (pf_div (pf_add min_x max_x) (Fin 2)) (\<lambda>center_x.
              ebind (pf_div (pf_add min_y max_y) (Fin 2)) (\<lambda>center_y.
              case location camera of (x, y, z) \<Rightarrow>
                Inr (camera\<lparr>ortho_scale := scale, location := (center_x, center_y, z)\<rparr>))))))"

section \<open>Rendering one model\<close>

text \<open>
  The loop that links the loaded objects to the scene and collects the excluded ones.
  A \<open>None\<close> entry is passed over; every other object is linked first and then given
  to the filter.
\<close>

fun link_objects ::
  "object option list \<Rightarrow> object list \<times> object list \<Rightarrow> py_error + object list \<times> object list" where
  "link_objects [] (linked, excluded_objects) = Inr (linked, excluded_objects)"
| "link_objects (None # rest) (linked, excluded_objects) =
     link_objects rest (linked, excluded_objects)"
| "link_objects (Some obj # rest) (linked, excluded_objects) =
     ebind (should_exclude_object obj) (\<lambda>exclude.
       link_objects rest
         (linked @ [obj], if exclude then excluded_objects @ [obj] else excluded_objects))"

text \<open>
  The loop over the excluded objects: each is reported and removed from the scene
  (one occurrence for each entry of the list).
\<close>

fun remove_excluded :: "object list \<Rightarrow> state \<Rightarrow> state" where
  "remove_excluded [] s = s"
| "remove_excluded (obj # rest) s =
     remove_excluded rest
       ((print (''  Excluding object: '' @ name obj) s)\<lparr>objects := remove1 obj (objects s)\<rparr>)"

definition render :: "state \<Rightarrow> state" where
  "render s =
     s\<lparr>rendered := rendered s @
        [\<lparr>out_path = filepath s,
          out_resolution = (resolution_x s, resolution_y s),
          out_percentage = resolution_percentage s,
          out_camera = scene_camera s,
          out_objects = objects s\<rparr>]\<rparr>"

text \<open>
  \<^verbatim>\<open>render_model\<close>; loading a path the host cannot read as a model file fails
  with \<^verbatim>\<open>OSError\<close>, after the scene has been reset.
\<close>

definition render_model ::
  "host \<Rightarrow> string \<Rightarrow> string \<Rightarrow> int \<Rightarrow> int \<Rightarrow> state \<Rightarrow> py_error + state" where
  "render_model h blend_file output_name width_hexes height_hexes s0 =
     (let s1 = print (''Rendering '' @ blend_file @ '' -> '' @ output_name) s0;
          s2 = setup_scene s1
      in case blend_files h blend_file of
           None \<Rightarrow> Inl OSError
         | Some data_to_objects \<Rightarrow>
             ebind (link_objects data_to_objects (objects s2, [])) (\<lambda>(linked, excluded_objects).
             let s3 = remove_excluded excluded_objects (s2\<lparr>objects := linked\<rparr>);
                 s4 = s3\<lparr>resolution_x := BASE_WIDTH * width_hexes,
                         resolution_y := BASE_HEIGHT * height_hexes,
                         resolution_percentage := 100\<rparr>
             in case create_camera h width_hexes height_hexes s4 of (camera, s5) \<Rightarrow>
             let s6 = create_lights s5
             in ebind (fit_camera_to_objects camera 1.2 s6) (\<lambda>camera'.
             let s7 = s6\<lparr>scene_camera := Some camera'\<rparr>;
                 output_path = path_join (OUTPUT_DIR h) (output_name @ ''.png'');
                 s8 = s7\<lparr>filepath := output_path\<rparr>;
                 s9 = render s8
             in Inr (print (''  Saved: '' @ output_path) s9))))"

section \<open>The batch driver\<close>



section \<open>Notions used in the statements\<close>

text \<open>A printed line is a warning when it starts with \<^verbatim>\<open>Warning: \<close>.\<close>

definition is_warning :: "string \<Rightarrow> bool" where
  "is_warning line = startswith line ''Warning: ''"





text \<open>The meshes of a scene and their bounding-box corners in world space.\<close>

definition meshes_of :: "state \<Rightarrow> object list" where
  "meshes_of s = filter (\<lambda>obj. type obj = ''MESH'') (objects s)"

definition world_vertices :: "object list \<Rightarrow> vec3 list" where
  "world_vertices objs = concat (map (\<lambda>obj. map (matrix_world obj) (corners (bound_box obj))) objs)"

text \<open>
  The axis-aligned rectangle around a list of points, in X and Y: its lower-left and
  its upper-right corner.
\<close>

definition bounding_rectangle :: "vec3 list \<Rightarrow> (real \<times> real) \<times> (real \<times> real)" where
  "bounding_rectangle vs =
     ((Min (vx ` set vs), Min (vy ` set vs)), (Max (vx ` set vs), Max (vy ` set vs)))"

text \<open>
  The extent of a bounding box along one axis: the largest minus the smallest
  coordinate of its corners.
\<close>

definition axis_extent :: "(vec3 \<Rightarrow> real) \<Rightarrow> bbox \<Rightarrow> real" where
  "axis_extent f b = Max (f ` set (corners b)) - Min (f ` set (corners b))"

text \<open>The entries of a loaded object list that are not \<open>None\<close>.\<close>

fun not_none :: "'a option list \<Rightarrow> 'a list" where
  "not_none [] = []"
| "not_none (None # rest) = not_none rest"
| "not_none (Some x # rest) = x # not_none rest"

section \<open>Example objects\<close>

definition unit_box :: "real \<Rightarrow> bbox" where
  "unit_box ht =
     BBox (0, 0, 0) (0, 0, ht) (0, 1, ht) (0, 1, 0) (1, 0, 0) (1, 0, ht) (1, 1, ht) (1, 1, 0)"

definition square_box :: "real \<Rightarrow> real \<Rightarrow> bbox" where
  "square_box lo hi =
     BBox (lo, lo, 0) (lo, lo, 1) (lo, hi, 1) (lo, hi, 0)
          (hi, lo, 0) (hi, lo, 1) (hi, hi, 1) (hi, hi, 0)"

text \<open>A box of the given sizes along X, Y and Z, with a corner at the origin.\<close>

definition slab_box :: "real \<Rightarrow> real \<Rightarrow> real \<Rightarrow> bbox" where
  "slab_box dx dy dz =
     BBox (0, 0, 0) (0, 0, dz) (0, dy, dz) (0, dy, 0) (dx, 0, 0) (dx, 0, dz) (dx, dy, dz) (dx, dy, 0)"

definition point_box :: bbox where
  "point_box = BBox (0, 0, 0) (0, 0, 0) (0, 0, 0) (0, 0, 0) (0, 0, 0) (0, 0, 0) (0, 0, 0) (0, 0, 0)"

definition mesh_named :: "string \<Rightarrow> bbox \<Rightarrow> object" where
  "mesh_named n b = \<lparr>type = ''MESH'', name = n, bound_box = b, matrix_world = (\<lambda>v. v)\<rparr>"

definition start_state :: state where
  "start_state =
     \<lparr>objects = [], scene_camera = None, lights = [],
      engine = ''BLENDER_EEVEE'', samples = 128, use_denoising = False,
      film_transparent = False, file_format = ''PNG'', color_mode = ''RGB'',
      resolution_x = 1920, resolution_y = 1080, resolution_percentage = 100,
      filepath = ''/tmp/'', created_dirs = [], stdout = [], rendered = []\<rparr>"

definition render_camera :: camera where
  "render_camera =
     \<lparr>cam_name = ''RenderCamera'', cam_type = ''ORTHO'',
      location = (Fin 0, Fin 0, Fin 10), rotation_euler = (0, 0, 0),
      ortho_scale = Fin 6\<rparr>"

text \<open>Two meshes over the squares from (-1, -1) to (1, 1) and from (3, 3) to (5, 5).\<close>

definition two_squares :: state where
  "two_squares =
     start_state\<lparr>objects := [mesh_named ''Hull'' (square_box (- 1) 1),
                              mesh_named ''Turret'' (square_box 3 5)],
                 resolution_x := 512, resolution_y := 443\<rparr>"

text \<open>A scene with an object that is not a mesh.\<close>

definition no_mesh_scene :: state where
  "no_mesh_scene =
     start_state\<lparr>objects := [\<lparr>type = ''EMPTY'', name = ''Anchor'', bound_box = unit_box 1,
                                matrix_world = (\<lambda>v. v)\<rparr>]\<rparr>"

text \<open>
  A host in which every model file is on disk except the one of the bridge; each file
  on disk loads, and holds a hull, an entry that did not load, and a flat base plate.
\<close>

definition one_missing :: host where
  "one_missing =
     \<lparr>MODELS_DIR = ''/repo/3Dmodels'',
      OUTPUT_DIR = ''/repo/public/sprites/units/rendered'',
      file_exists = (\<lambda>path. path \<noteq> ''/repo/3Dmodels/3dprint_pont.blend''),
      blend_files = (\<lambda>path. if path = ''/repo/3Dmodels/3dprint_pont.blend'' then None
                             else Some [Some (mesh_named ''Hull'' (unit_box 1)), None,
                                        Some (mesh_named ''Socle'' (unit_box 0.01))]),
      new_ortho_scale = Fin 6\<rparr>"


section \<open>Properties of the object filter\<close>

lemma startswith_iff: "startswith s p \<longleftrightarrow> (\<exists>b. s = p @ b)"
  by (induction s p rule: startswith.induct) auto

text \<open>\<open>str_in\<close> is the substring relation.\<close>

lemma str_in_iff: "str_in p s \<longleftrightarrow> (\<exists>a b. s = a @ p @ b)"
proof (induction s)
  case Nil
  then show ?case by auto
next
  case (Cons c cs)
  show ?case
  proof
    assume "str_in p (c # cs)"
    then consider "startswith (c # cs) p" | "str_in p cs" by auto
    then show "\<exists>a b. c # cs = a @ p @ b"
    proof cases
      case 1
      then obtain b where "c # cs = p @ b" by (auto simp: startswith_iff)
      then have "c # cs = [] @ p @ b" by simp
      then show ?thesis by blast
    next
      case 2
      then obtain a b where "cs = a @ p @ b" using Cons.IH by auto
      then have "c # cs = (c # a) @ p @ b" by simp
      then show ?thesis by blast
    qed
  next
    assume "\<exists>a b. c # cs = a @ p @ b"
    then obtain a b where ab: "c # cs = a @ p @ b" by blast
    show "str_in p (c # cs)"
    proof (cases a)
      case Nil
      then have "startswith (c # cs) p" using ab by (auto simp: startswith_iff)
      then show ?thesis by simp
    next
      case (Cons a0 as)
      then have "cs = as @ p @ b" using ab by simp
      then have "str_in p cs" using Cons.IH by blast
      then show ?thesis by simp
    qed
  qed
qed

lemma matches_pattern_iff: "matches_pattern ps s \<longleftrightarrow> (\<exists>p \<in> set ps. str_in p s)"
  by (induction ps) auto

lemma Min_insert_min: "finite S \<Longrightarrow> Min (insert (min a x) (S::real set)) = Min (insert a (insert x S))"
  by (cases "S = {}") (simp_all add: min.assoc)

lemma Max_insert_max: "finite S \<Longrightarrow> Max (insert (max a x) (S::real set)) = Max (insert a (insert x S))"
  by (cases "S = {}") (simp_all add: max.assoc)

text \<open>
  \<^verbatim>\<open>max(seq)\<close> and \<^verbatim>\<open>min(seq)\<close> of a sequence that is not empty are the greatest
  and the least of its elements.
\<close>

lemma fold_max_Max:
  "fold (\<lambda>v m. if m < v then v else m) xs (x::real) = Max (insert x (set xs))"
proof (induction xs arbitrary: x)
  case Nil
  then show ?case by simp
next
  case (Cons a xs)
  have "(if x < a then a else x) = max x a"
    by (simp add: max_def)
  then show ?case
    by (simp add: Cons.IH Max_insert_max)
qed

lemma fold_min_Min:
  "fold (\<lambda>v m. if v < m then v else m) xs (x::real) = Min (insert x (set xs))"
proof (induction xs arbitrary: x)
  case Nil
  then show ?case by simp
next
  case (Cons a xs)
  have "(if a < x then a else x) = min x a"
    by (simp add: min_def)
  then show ?case
    by (simp add: Cons.IH Min_insert_min)
qed

lemma extent_Max_Min:
  assumes "cs \<noteq> []"
  shows "extent cs = Inr (Max (set cs) - Min (set cs))"
proof -
  obtain c rest where cs: "cs = c # rest"
    using assms by (cases cs) auto
  show ?thesis
    by (simp add: cs extent_def ebind_def fold_max_Max fold_min_Min)
qed

lemma corners_nonempty: "corners b \<noteq> []"
  by (cases b) simp

lemma extent_axis: "extent (map f (corners b)) = Inr (axis_extent f b)"
  using extent_Max_Min [of "map f (corners b)"] corners_nonempty [of b]
  by (simp add: axis_extent_def)

text \<open>
  What the filter calls \<open>z_height\<close> is the extent of the bounding box along Z, and
  \<open>xy_size\<close> is the larger of its extents along X and Y.
\<close>

lemma z_height_extent: "z_height obj = Inr (axis_extent vz (bound_box obj))"
  by (simp add: z_height_def extent_axis)

lemma xy_size_extent:
  "xy_size obj = Inr (max (axis_extent vx (bound_box obj)) (axis_extent vy (bound_box obj)))"
  by (simp add: xy_size_def extent_axis ebind_def)

lemma axis_extent_slab_box:
  assumes "0 \<le> dx" and "0 \<le> dy" and "0 \<le> dz"
  shows "axis_extent vx (slab_box dx dy dz) = dx"
    and "axis_extent vy (slab_box dx dy dz) = dy"
    and "axis_extent vz (slab_box dx dy dz) = dz"
  using assms by (simp_all add: axis_extent_def slab_box_def vx_def vy_def vz_def)

text \<open>On the eight corners of a bounding box no \<open>max\<close> or \<open>min\<close> fails.\<close>

lemma extent_corners: "\<exists>d. extent (map f (corners b)) = Inr d"
  by (cases b) (simp add: extent_def ebind_def)

lemma z_height_total: "\<exists>zh. z_height obj = Inr zh"
  by (simp add: z_height_def extent_corners)

lemma xy_size_total: "\<exists>xy. xy_size obj = Inr xy"
proof -
  obtain dx where dx: "extent (map vx (corners (bound_box obj))) = Inr dx"
    using extent_corners by blast
  obtain dy where dy: "extent (map vy (corners (bound_box obj))) = Inr dy"
    using extent_corners by blast
  show ?thesis by (simp add: xy_size_def dx dy ebind_def)
qed

lemma should_exclude_unnamed:
  assumes "type obj = ''MESH''"
    and "\<not> matches_pattern EXCLUDE_PATTERNS (lower (name obj))"
    and "z_height obj = Inr zh" and "xy_size obj = Inr xy"
  shows "should_exclude_object obj = (if 0 < xy then Inr (zh / xy < 0.05) else Inr False)"
  using assms by (simp add: should_exclude_object_def ebind_def is_flat_def py_div_def)

text \<open>The filter always returns: it raises no exception.\<close>

lemma should_exclude_object_total: "\<exists>b. should_exclude_object obj = Inr b"
proof -
  obtain zh xy where "z_height obj = Inr zh" "xy_size obj = Inr xy"
    using z_height_total xy_size_total by blast
  then show ?thesis
    by (auto simp: should_exclude_object_def ebind_def is_flat_def py_div_def)
qed

lemma xy_size_point_box: "xy_size (mesh_named n point_box) = Inr 0"
  by (simp add: xy_size_def mesh_named_def point_box_def extent_def ebind_def vx_def vy_def)

lemma tank_unmatched: "\<forall>p \<in> set EXCLUDE_PATTERNS. \<not> str_in p (lower ''Tank'')"
  by (simp add: EXCLUDE_PATTERNS_def lower_def lower_char_def)

text \<open>
  C1. A mesh whose lower-cased name contains one of the exclusion substrings is
  excluded, whatever its bounding box; so are the meshes named \<open>plane\<close>,
  \<open>hex_socle\<close> and \<open>ground01\<close>.
\<close>

theorem exclude_by_name:
  assumes "type obj = ''MESH''"
  shows "((\<exists>p \<in> set EXCLUDE_PATTERNS. str_in p (lower (name obj)))
            \<longrightarrow> should_exclude_object obj = Inr True)
       \<and> (name obj \<in> {''plane'', ''hex_socle'', ''ground01''}
            \<longrightarrow> should_exclude_object obj = Inr True)"
proof (intro conjI impI)
  assume "\<exists>p \<in> set EXCLUDE_PATTERNS. str_in p (lower (name obj))"
  then show "should_exclude_object obj = Inr True"
    using assms by (simp add: should_exclude_object_def matches_pattern_iff)
next
  assume "name obj \<in> {''plane'', ''hex_socle'', ''ground01''}"
  then have "matches_pattern EXCLUDE_PATTERNS (lower (name obj))"
    by (auto simp: EXCLUDE_PATTERNS_def lower_def lower_char_def)
  then show "should_exclude_object obj = Inr True"
    using assms by (simp add: should_exclude_object_def)
qed

theorem exclude_by_name_witness:
  "type (mesh_named ''Landing_PAD.001'' (unit_box 5)) = ''MESH''
   \<and> (\<exists>p \<in> set EXCLUDE_PATTERNS. str_in p (lower (name (mesh_named ''Landing_PAD.001'' (unit_box 5)))))
   \<and> should_exclude_object (mesh_named ''Landing_PAD.001'' (unit_box 5)) = Inr True
   \<and> name (mesh_named ''hex_socle'' (unit_box 5)) \<in> {''plane'', ''hex_socle'', ''ground01''}
   \<and> should_exclude_object (mesh_named ''hex_socle'' (unit_box 5)) = Inr True"
proof -
  have t: "type (mesh_named n (unit_box 5)) = ''MESH''" for n
    by (simp add: mesh_named_def)
  have "str_in ''pad'' (lower (name (mesh_named ''Landing_PAD.001'' (unit_box 5))))"
    by (simp add: mesh_named_def lower_def lower_char_def)
  then have p: "\<exists>p \<in> set EXCLUDE_PATTERNS.
      str_in p (lower (name (mesh_named ''Landing_PAD.001'' (unit_box 5))))"
    by (simp add: EXCLUDE_PATTERNS_def)
  have n: "name (mesh_named ''hex_socle'' (unit_box 5)) \<in> {''plane'', ''hex_socle'', ''ground01''}"
    by (simp add: mesh_named_def)
  from exclude_by_name [OF t, of "''Landing_PAD.001''"] p
  have 1: "should_exclude_object (mesh_named ''Landing_PAD.001'' (unit_box 5)) = Inr True"
    by blast
  from exclude_by_name [OF t, of "''hex_socle''"] n
  have 2: "should_exclude_object (mesh_named ''hex_socle'' (unit_box 5)) = Inr True"
    by blast
  from t p 1 n 2 show ?thesis by blast
qed

text \<open>
  C2. A mesh whose name matches no exclusion substring and whose XY size, the larger of
  the X and Y extents of its bounding box (an extent being the largest minus the
  smallest coordinate of the corners), is positive is excluded exactly when its height,
  the Z extent, divided by the XY size is below 0.05: with height 0.01 and XY size 1 it
  is excluded, with height 1 and XY size 1 it is retained.
\<close>

theorem exclude_by_flatness:
  assumes "type obj = ''MESH''"
    and "\<forall>p \<in> set EXCLUDE_PATTERNS. \<not> str_in p (lower (name obj))"
    and "height = axis_extent vz (bound_box obj)"
    and "xy = max (axis_extent vx (bound_box obj)) (axis_extent vy (bound_box obj))"
    and "0 < xy"
  shows "should_exclude_object obj = Inr (height / xy < 0.05)
       \<and> (height = 0.01 \<and> xy = 1 \<longrightarrow> should_exclude_object obj = Inr True)
       \<and> (height = 1 \<and> xy = 1 \<longrightarrow> should_exclude_object obj = Inr False)"
proof -
  have zh: "z_height obj = Inr height"
    by (simp add: z_height_extent assms(3))
  have xy: "xy_size obj = Inr xy"
    by (simp add: xy_size_extent assms(4))
  have nm: "\<not> matches_pattern EXCLUDE_PATTERNS (lower (name obj))"
    using assms(2) by (simp add: matches_pattern_iff)
  have r: "should_exclude_object obj = Inr (height / xy < 0.05)"
    using should_exclude_unnamed [OF assms(1) nm zh xy] assms(5) by simp
  moreover have "height = 0.01 \<and> xy = 1 \<longrightarrow> should_exclude_object obj = Inr True"
    using r by simp
  moreover have "height = 1 \<and> xy = 1 \<longrightarrow> should_exclude_object obj = Inr False"
    using r by simp
  ultimately show ?thesis by blast
qed

theorem exclude_by_flatness_witness:
  "type (mesh_named ''Tank'' (slab_box 2 4 0.15)) = ''MESH''
   \<and> \<not> (\<exists>p \<in> set EXCLUDE_PATTERNS. str_in p (lower (name (mesh_named ''Tank'' (slab_box 2 4 0.15)))))
   \<and> axis_extent vz (bound_box (mesh_named ''Tank'' (slab_box 2 4 0.15))) = 0.15
   \<and> max (axis_extent vx (bound_box (mesh_named ''Tank'' (slab_box 2 4 0.15))))
           (axis_extent vy (bound_box (mesh_named ''Tank'' (slab_box 2 4 0.15)))) = 4
   \<and> should_exclude_object (mesh_named ''Tank'' (slab_box 2 4 0.15)) = Inr True
   \<and> should_exclude_object (mesh_named ''Tank'' (slab_box 4 2 0.15)) = Inr True
   \<and> should_exclude_object (mesh_named ''Tank'' (slab_box 2 4 0.3)) = Inr False
   \<and> should_exclude_object (mesh_named ''Tank'' (slab_box 1 1 0.01)) = Inr True
   \<and> should_exclude_object (mesh_named ''Tank'' (slab_box 1 1 1)) = Inr False"
proof -
  have t: "type (mesh_named ''Tank'' b) = ''MESH''" for b
    by (simp add: mesh_named_def)
  have u: "\<forall>p \<in> set EXCLUDE_PATTERNS. \<not> str_in p (lower (name (mesh_named ''Tank'' b)))" for b
    using tank_unmatched by (simp add: mesh_named_def)
  have b: "bound_box (mesh_named ''Tank'' b) = b" for b
    by (simp add: mesh_named_def)
  have z: "axis_extent vz (bound_box (mesh_named ''Tank'' (slab_box 2 4 0.15))) = 0.15"
    by (simp add: b axis_extent_slab_box)
  have xy: "max (axis_extent vx (bound_box (mesh_named ''Tank'' (slab_box 2 4 0.15))))
                (axis_extent vy (bound_box (mesh_named ''Tank'' (slab_box 2 4 0.15)))) = 4"
    by (simp add: b axis_extent_slab_box)
  from exclude_by_flatness [OF t u refl refl, of "slab_box 2 4 0.15"]
  have 1: "should_exclude_object (mesh_named ''Tank'' (slab_box 2 4 0.15)) = Inr True"
    by (simp add: b axis_extent_slab_box)
  from exclude_by_flatness [OF t u refl refl, of "slab_box 4 2 0.15"]
  have 2: "should_exclude_object (mesh_named ''Tank'' (slab_box 4 2 0.15)) = Inr True"
    by (simp add: b axis_extent_slab_box)
  from exclude_by_flatness [OF t u refl refl, of "slab_box 2 4 0.3"]
  have 3: "should_exclude_object (mesh_named ''Tank'' (slab_box 2 4 0.3)) = Inr False"
    by (simp add: b axis_extent_slab_box)
  from exclude_by_flatness [OF t u refl refl, of "slab_box 1 1 0.01"]
  have 4: "should_exclude_object (mesh_named ''Tank'' (slab_box 1 1 0.01)) = Inr True"
    by (simp add: b axis_extent_slab_box)
  from exclude_by_flatness [OF t u refl refl, of "slab_box 1 1 1"]
  have 5: "should_exclude_object (mesh_named ''Tank'' (slab_box 1 1 1)) = Inr False"
    by (simp add: b axis_extent_slab_box)
  from t u z xy 1 2 3 4 5 show ?thesis by blast
qed

text \<open>
  C5. A mesh whose bounding box has zero XY extent and whose name matches no exclusion
  substring is retained: the ratio is not computed (no \<open>ZeroDivisionError\<close>), and the
  result is \<open>False\<close>.
\<close>

theorem zero_extent_retained:
  assumes "type obj = ''MESH''"
    and "\<forall>p \<in> set EXCLUDE_PATTERNS. \<not> str_in p (lower (name obj))"
    and "xy_size obj = Inr 0"
  shows "should_exclude_object obj = Inr False"
proof -
  obtain zh where zh: "z_height obj = Inr zh"
    using z_height_total by blast
  have nm: "\<not> matches_pattern EXCLUDE_PATTERNS (lower (name obj))"
    using assms(2) by (simp add: matches_pattern_iff)
  show ?thesis
    using should_exclude_unnamed [OF assms(1) nm zh assms(3)] by simp
qed

theorem zero_extent_retained_witness:
  "type (mesh_named ''Tank'' point_box) = ''MESH''
   \<and> \<not> (\<exists>p \<in> set EXCLUDE_PATTERNS. str_in p (lower (name (mesh_named ''Tank'' point_box))))
   \<and> xy_size (mesh_named ''Tank'' point_box) = Inr 0
   \<and> should_exclude_object (mesh_named ''Tank'' point_box) = Inr False"
proof -
  have t: "type (mesh_named ''Tank'' point_box) = ''MESH''"
    by (simp add: mesh_named_def)
  have u: "\<forall>p \<in> set EXCLUDE_PATTERNS. \<not> str_in p (lower (name (mesh_named ''Tank'' point_box)))"
    using tank_unmatched by (simp add: mesh_named_def)
  note xy = xy_size_point_box [of "''Tank''"]
  from t u xy zero_extent_retained [OF t u xy] show ?thesis by blast
qed

text \<open>
  C9. An object whose type is not \<open>MESH\<close> is retained at once, whatever its name and
  bounding box.
\<close>

theorem non_mesh_retained:
  assumes "type obj \<noteq> ''MESH''"
  shows "should_exclude_object obj = Inr False"
  using assms by (simp add: should_exclude_object_def)

theorem non_mesh_retained_witness:
  "type \<lparr>type = ''CAMERA'', name = ''base'', bound_box = unit_box 0, matrix_world = (\<lambda>v. v)\<rparr> \<noteq> ''MESH''
   \<and> should_exclude_object
       \<lparr>type = ''CAMERA'', name = ''base'', bound_box = unit_box 0, matrix_world = (\<lambda>v. v)\<rparr> = Inr False"
proof -
  have t: "type \<lparr>type = ''CAMERA'', name = ''base'', bound_box = unit_box 0,
                 matrix_world = (\<lambda>v. v)\<rparr> \<noteq> ''MESH''"
    by simp
  from t non_mesh_retained [OF t] show ?thesis by blast
qed

section \<open>Properties of the framing\<close>

lemma fit_vertex_Fin:
  "fit_vertex v (Fin a, Fin b, Fin c, Fin d) =
     (Fin (min a (vx v)), Fin (max b (vx v)), Fin (min c (vy v)), Fin (max d (vy v)))"
  by (simp add: min2_def max2_def min_def max_def)

lemma fit_vertex_init:
  "fit_vertex v (PInf, NInf, PInf, NInf) = (Fin (vx v), Fin (vx v), Fin (vy v), Fin (vy v))"
  by (simp add: min2_def max2_def)

lemma fold_fit_vertex_Fin:
  "fold fit_vertex vs (Fin a, Fin b, Fin c, Fin d) =
     (Fin (Min (insert a (vx ` set vs))), Fin (Max (insert b (vx ` set vs))),
      Fin (Min (insert c (vy ` set vs))), Fin (Max (insert d (vy ` set vs))))"
proof (induction vs arbitrary: a b c d)
  case Nil
  then show ?case by simp
next
  case (Cons v vs)
  have "fold fit_vertex (v # vs) (Fin a, Fin b, Fin c, Fin d) =
        fold fit_vertex vs (Fin (min a (vx v)), Fin (max b (vx v)), Fin (min c (vy v)), Fin (max d (vy v)))"
    by (simp add: fit_vertex_Fin del: fit_vertex.simps)
  then show ?case
    by (simp add: Cons.IH Min_insert_min Max_insert_max del: fit_vertex.simps)
qed

lemma fold_fit_vertex_init:
  assumes "vs \<noteq> []"
  shows "fold fit_vertex vs (PInf, NInf, PInf, NInf) =
     (Fin (Min (vx ` set vs)), Fin (Max (vx ` set vs)),
      Fin (Min (vy ` set vs)), Fin (Max (vy ` set vs)))"
proof -
  obtain v rest where vs: "vs = v # rest"
    using assms by (cases vs) auto
  have "fold fit_vertex vs (PInf, NInf, PInf, NInf) =
        fold fit_vertex rest (Fin (vx v), Fin (vx v), Fin (vy v), Fin (vy v))"
    by (simp add: vs fit_vertex_init del: fit_vertex.simps)
  then show ?thesis
    by (simp add: fold_fit_vertex_Fin vs)
qed

text \<open>The two nested loops walk the world-space corners of all meshes in order.\<close>

lemma fit_object_fold:
  "fit_object obj = fold fit_vertex (map (matrix_world obj) (corners (bound_box obj)))"
  by (simp add: fit_object_def fold_map fun_eq_iff comp_def)

lemma fold_fit_object:
  "fold fit_object objs r = fold fit_vertex (world_vertices objs) r"
  by (induction objs arbitrary: r) (simp_all add: world_vertices_def fit_object_fold)

lemma world_vertices_nonempty: "objs \<noteq> [] \<Longrightarrow> world_vertices objs \<noteq> []"
  by (cases objs; cases "bound_box (hd objs)") (simp_all add: world_vertices_def)

lemma fit_bounds_rectangle:
  assumes "meshes \<noteq> []"
    and "bounding_rectangle (world_vertices meshes) = ((x0, y0), (x1, y1))"
  shows "fit_bounds meshes = (Fin x0, Fin x1, Fin y0, Fin y1)"
  using assms fold_fit_vertex_init [OF world_vertices_nonempty [OF assms(1)]]
  by (simp add: fit_bounds_def fold_fit_object bounding_rectangle_def)

text \<open>
  What the framing computes when there is a mesh and the resolution is not zero, with
  the test of the source as it is written.
\<close>

lemma fit_camera_result:
  assumes "meshes_of s \<noteq> []"
    and "resolution_x s \<noteq> 0" and "resolution_y s \<noteq> 0"
    and "bounding_rectangle (world_vertices (meshes_of s)) = ((x0, y0), (x1, y1))"
    and "aspect = real_of_int (resolution_x s) / real_of_int (resolution_y s)"
  shows "fit_camera_to_objects camera padding s =
     Inr (camera\<lparr>ortho_scale :=
                    Fin (if y1 - y0 < (x1 - x0) / aspect then (x1 - x0) * padding
                         else (y1 - y0) * aspect * padding),
                  location := (Fin ((x0 + x1) / 2), Fin ((y0 + y1) / 2),
                               snd (snd (location camera)))\<rparr>)"
proof -
  have m: "filter (\<lambda>obj. type obj = ''MESH'') (objects s) \<noteq> []"
    using assms(1) by (simp add: meshes_of_def)
  have b: "fit_bounds (filter (\<lambda>obj. type obj = ''MESH'') (objects s)) = (Fin x0, Fin x1, Fin y0, Fin y1)"
    using fit_bounds_rectangle [OF assms(1) assms(4)] by (simp add: meshes_of_def)
  have a: "aspect \<noteq> 0"
    using assms(2,3,5) by simp
  have t: "int_truediv (resolution_x s) (resolution_y s) = Inr (Fin aspect)"
    using assms(3,5) by (simp add: int_truediv_def)
  obtain x y z where l: "location camera = (x, y, z)"
    by (cases "location camera") auto
  show ?thesis
    using m a by (simp add: fit_camera_to_objects_def Let_def b t l ebind_def pf_sub_def)
qed

lemma fit_camera_returns:
  assumes "resolution_x s \<noteq> 0" and "resolution_y s \<noteq> 0"
  shows "\<exists>camera'. fit_camera_to_objects camera padding s = Inr camera'"
proof (cases "meshes_of s = []")
  case True
  then show ?thesis
    by (simp add: fit_camera_to_objects_def meshes_of_def)
next
  case False
  obtain x0 y0 x1 y1 where "bounding_rectangle (world_vertices (meshes_of s)) = ((x0, y0), (x1, y1))"
    by (simp add: bounding_rectangle_def)
  from fit_camera_result [OF False assms this refl] show ?thesis
    by blast
qed

lemma bounding_rectangle_append:
  assumes "us \<noteq> []" and "vs \<noteq> []"
    and "bounding_rectangle us = ((a0, b0), (a1, b1))"
    and "bounding_rectangle vs = ((c0, d0), (c1, d1))"
  shows "bounding_rectangle (us @ vs) = ((min a0 c0, min b0 d0), (max a1 c1, max b1 d1))"
  using assms by (simp add: bounding_rectangle_def image_Un Min_Un Max_Un)

lemma world_vertices_append: "world_vertices (xs @ ys) = world_vertices xs @ world_vertices ys"
  by (simp add: world_vertices_def)

lemma two_squares_meshes:
  "meshes_of two_squares =
     [mesh_named ''Hull'' (square_box (- 1) 1), mesh_named ''Turret'' (square_box 3 5)]"
  by (simp add: meshes_of_def two_squares_def start_state_def mesh_named_def)

lemma square_box_rectangle:
  "lo \<le> hi \<Longrightarrow>
   bounding_rectangle (world_vertices [mesh_named n (square_box lo hi)]) = ((lo, lo), (hi, hi))"
  by (simp add: bounding_rectangle_def world_vertices_def mesh_named_def square_box_def
      vx_def vy_def)

lemma two_squares_rectangle:
  "bounding_rectangle (world_vertices (meshes_of two_squares)) = ((- 1, - 1), (5, 5))"
proof -
  have "bounding_rectangle
          (world_vertices ([mesh_named ''Hull'' (square_box (- 1) 1)] @
                           [mesh_named ''Turret'' (square_box 3 5)])) =
        ((min (- 1) 3, min (- 1) 3), (max 1 5, max 1 5))"
    unfolding world_vertices_append
    by (rule bounding_rectangle_append)
       (simp_all add: world_vertices_nonempty square_box_rectangle)
  then show ?thesis
    by (simp add: two_squares_meshes)
qed

text \<open>
  The source tests \<open>width / aspect > height\<close>; where neither side exceeds the other the
  two scales are the same number.
\<close>

lemma scale_choice:
  "(if H < W then W * p else H * p) = (if W < H then H * p else W * p)" for H W p :: real
proof -
  consider "H < W" | "W < H" | "H = W" by linarith
  then show ?thesis by cases auto
qed

text \<open>
  C3. In a scene with at least one mesh (and the positive resolution the host keeps),
  the framing takes the rectangle around the world-space bounding-box corners of all
  meshes, sets the orthographic scale to height * aspect * 1.2 when the aspect-adjusted
  height exceeds the width and to width * 1.2 otherwise, and moves the camera over the
  centre of the rectangle. Two meshes over [(-1,-1),(1,1)] and [(3,3),(5,5)] give the
  rectangle [(-1,-1),(5,5)], width 6, height 6 and the centre (2,2).
\<close>

theorem fit_camera_frames_meshes:
  assumes "meshes_of s \<noteq> []"
    and "0 < resolution_x s" and "0 < resolution_y s"
    and "bounding_rectangle (world_vertices (meshes_of s)) = ((x0, y0), (x1, y1))"
    and "width = x1 - x0" and "height = y1 - y0"
    and "aspect = real_of_int (resolution_x s) / real_of_int (resolution_y s)"
  shows "fit_camera_to_objects camera 1.2 s =
           Inr (camera\<lparr>ortho_scale :=
                          Fin (if width < height * aspect then height * aspect * 1.2
                               else width * 1.2),
                        location := (Fin ((x0 + x1) / 2), Fin ((y0 + y1) / 2),
                                     snd (snd (location camera)))\<rparr>)
       \<and> (\<forall>m1 m2. meshes_of s = [m1, m2]
             \<and> bounding_rectangle (world_vertices [m1]) = ((- 1, - 1), (1, 1))
             \<and> bounding_rectangle (world_vertices [m2]) = ((3, 3), (5, 5))
            \<longrightarrow> ((x0, y0), (x1, y1)) = ((- 1, - 1), (5, 5)) \<and> width = 6 \<and> height = 6
                \<and> ((x0 + x1) / 2, (y0 + y1) / 2) = (2, 2))"
proof (rule conjI)
  have pos: "0 < aspect"
    using assms(2,3,7) by simp
  have nz: "resolution_x s \<noteq> 0" "resolution_y s \<noteq> 0"
    using assms(2,3) by simp_all
  have test: "(y1 - y0 < (x1 - x0) / aspect) = ((y1 - y0) * aspect < x1 - x0)"
    using pos by (simp add: pos_less_divide_eq)
  have eq: "(if y1 - y0 < (x1 - x0) / aspect then (x1 - x0) * 1.2 else (y1 - y0) * aspect * 1.2) =
        (if width < height * aspect then height * aspect * 1.2 else width * 1.2)"
    unfolding test assms(5,6) by (rule scale_choice)
  show "fit_camera_to_objects camera 1.2 s =
           Inr (camera\<lparr>ortho_scale :=
                          Fin (if width < height * aspect then height * aspect * 1.2
                               else width * 1.2),
                        location := (Fin ((x0 + x1) / 2), Fin ((y0 + y1) / 2),
                                     snd (snd (location camera)))\<rparr>)"
    unfolding eq [symmetric]
    by (rule fit_camera_result [OF assms(1) nz assms(4) assms(7)])
next
  show "\<forall>m1 m2. meshes_of s = [m1, m2]
             \<and> bounding_rectangle (world_vertices [m1]) = ((- 1, - 1), (1, 1))
             \<and> bounding_rectangle (world_vertices [m2]) = ((3, 3), (5, 5))
            \<longrightarrow> ((x0, y0), (x1, y1)) = ((- 1, - 1), (5, 5)) \<and> width = 6 \<and> height = 6
                \<and> ((x0 + x1) / 2, (y0 + y1) / 2) = (2, 2)"
  proof (intro allI impI)
  fix m1 m2
  assume a: "meshes_of s = [m1, m2]
             \<and> bounding_rectangle (world_vertices [m1]) = ((- 1, - 1), (1, 1))
             \<and> bounding_rectangle (world_vertices [m2]) = ((3, 3), (5, 5))"
  have "bounding_rectangle (world_vertices ([m1] @ [m2])) =
        ((min (- 1) 3, min (- 1) 3), (max 1 5, max 1 5))"
    unfolding world_vertices_append
    by (rule bounding_rectangle_append) (simp_all add: world_vertices_nonempty a)
  then have "((x0, y0), (x1, y1)) = ((- 1, - 1), (5, 5))"
    using a assms(4) by simp
  then show "((x0, y0), (x1, y1)) = ((- 1, - 1), (5, 5)) \<and> width = 6 \<and> height = 6
                \<and> ((x0 + x1) / 2, (y0 + y1) / 2) = (2, 2)"
    using assms(5,6) by simp
  qed
qed

theorem fit_camera_frames_meshes_witness:
  "meshes_of two_squares \<noteq> []
   \<and> 0 < resolution_x two_squares \<and> 0 < resolution_y two_squares
   \<and> bounding_rectangle (world_vertices (meshes_of two_squares)) = ((- 1, - 1), (5, 5))
   \<and> fit_camera_to_objects render_camera 1.2 two_squares =
       Inr (render_camera\<lparr>ortho_scale := Fin (6 * (512 / 443) * 1.2),
                           location := (Fin 2, Fin 2, Fin 10)\<rparr>)"
proof -
  have m: "meshes_of two_squares \<noteq> []"
    by (simp add: two_squares_meshes)
  have rx: "0 < resolution_x two_squares" and ry: "0 < resolution_y two_squares"
    by (simp_all add: two_squares_def start_state_def)
  have asp: "real_of_int (resolution_x two_squares) / real_of_int (resolution_y two_squares) = 512 / 443"
    by (simp add: two_squares_def start_state_def)
  note r = two_squares_rectangle
  from fit_camera_frames_meshes [OF m rx ry r refl refl refl, of render_camera]
  have "fit_camera_to_objects render_camera 1.2 two_squares =
       Inr (render_camera\<lparr>ortho_scale := Fin (6 * (512 / 443) * 1.2),
                           location := (Fin 2, Fin 2, Fin 10)\<rparr>)"
    by (simp add: asp render_camera_def)
  with m rx ry r show ?thesis by blast
qed

text \<open>
  C7. In a scene without a mesh the framing returns at once: the camera is as it was,
  scale and location included, and no exception is raised.
\<close>

theorem fit_camera_no_mesh:
  assumes "meshes_of s = []"
  shows "fit_camera_to_objects camera padding s = Inr camera"
  using assms by (simp add: fit_camera_to_objects_def meshes_of_def)

theorem fit_camera_no_mesh_witness:
  "meshes_of no_mesh_scene = []
   \<and> fit_camera_to_objects render_camera 1.2 no_mesh_scene = Inr render_camera"
proof -
  have m: "meshes_of no_mesh_scene = []"
    by (simp add: meshes_of_def no_mesh_scene_def start_state_def)
  from m fit_camera_no_mesh [OF m] show ?thesis by blast
qed

text \<open>
  C8. In a scene with at least one mesh (and a resolution that is not zero, as the host
  keeps it) the framing changes the orthographic scale and the X and Y of the camera's
  location, which become the centre of the bounding rectangle; the Z of the location
  and every other attribute of the camera stay.
\<close>

theorem fit_camera_keeps_z:
  assumes "meshes_of s \<noteq> []"
    and "resolution_x s \<noteq> 0" and "resolution_y s \<noteq> 0"
    and "bounding_rectangle (world_vertices (meshes_of s)) = ((x0, y0), (x1, y1))"
  shows "\<exists>camera' scale.
           fit_camera_to_objects camera padding s = Inr camera'
         \<and> camera' = camera\<lparr>ortho_scale := scale,
                             location := (Fin ((x0 + x1) / 2), Fin ((y0 + y1) / 2),
                                          snd (snd (location camera)))\<rparr>
         \<and> snd (snd (location camera')) = snd (snd (location camera))"
proof -
  define scale where
    "scale = Fin (if y1 - y0 < (x1 - x0) / (real_of_int (resolution_x s) / real_of_int (resolution_y s))
                  then (x1 - x0) * padding
                  else (y1 - y0) * (real_of_int (resolution_x s) / real_of_int (resolution_y s)) * padding)"
  define camera' where
    "camera' = camera\<lparr>ortho_scale := scale,
                         location := (Fin ((x0 + x1) / 2), Fin ((y0 + y1) / 2),
                                      snd (snd (location camera)))\<rparr>"
  have "fit_camera_to_objects camera padding s = Inr camera'"
    unfolding camera'_def scale_def
    by (rule fit_camera_result [OF assms refl])
  moreover have "snd (snd (location camera')) = snd (snd (location camera))"
    by (simp add: camera'_def)
  ultimately show ?thesis
    using camera'_def by blast
qed

theorem fit_camera_keeps_z_witness:
  "meshes_of two_squares \<noteq> []
   \<and> resolution_x two_squares \<noteq> 0 \<and> resolution_y two_squares \<noteq> 0
   \<and> bounding_rectangle (world_vertices (meshes_of two_squares)) = ((- 1, - 1), (5, 5))
   \<and> (\<exists>camera' scale.
         fit_camera_to_objects render_camera 1.2 two_squares = Inr camera'
       \<and> camera' = render_camera\<lparr>ortho_scale := scale, location := (Fin 2, Fin 2, Fin 10)\<rparr>
       \<and> snd (snd (location camera')) = Fin 10)"
proof -
  have m: "meshes_of two_squares \<noteq> []"
    by (simp add: two_squares_meshes)
  have rx: "resolution_x two_squares \<noteq> 0" and ry: "resolution_y two_squares \<noteq> 0"
    by (simp_all add: two_squares_def start_state_def)
  note r = two_squares_rectangle
  from fit_camera_keeps_z [OF m rx ry r, of render_camera "1.2"]
  have "\<exists>camera' scale.
         fit_camera_to_objects render_camera 1.2 two_squares = Inr camera'
       \<and> camera' = render_camera\<lparr>ortho_scale := scale, location := (Fin 2, Fin 2, Fin 10)\<rparr>
       \<and> snd (snd (location camera')) = Fin 10"
    by (simp add: render_camera_def)
  with m rx ry r show ?thesis by blast
qed

section \<open>Properties of rendering one model\<close>

lemma BASE_HEIGHT_443: "BASE_HEIGHT = 443"
  by (simp add: BASE_HEIGHT_def py_int_def)

lemma not_none_map_Some: "not_none (map Some xs) = xs"
  by (induction xs) simp_all

text \<open>
  The linking loop never fails; it links the entries that are not \<open>None\<close>, in order,
  and collects those of them the filter excludes.
\<close>

lemma link_objects_result:
  "link_objects loaded (linked, excluded) =
     Inr (linked @ not_none loaded,
          excluded @ filter (\<lambda>obj. should_exclude_object obj = Inr True) (not_none loaded))"
proof (induction loaded arbitrary: linked excluded)
  case Nil
  then show ?case by simp
next
  case (Cons entry rest)
  show ?case
  proof (cases entry)
    case None
    then show ?thesis by (simp add: Cons.IH)
  next
    case (Some obj)
    obtain b where b: "should_exclude_object obj = Inr b"
      using should_exclude_object_total by blast
    show ?thesis
      by (cases b) (simp_all add: Some b ebind_def Cons.IH)
  qed
qed

lemma remove_excluded_result:
  "remove_excluded excluded s =
     s\<lparr>stdout := stdout s @ map (\<lambda>obj. ''  Excluding object: '' @ name obj) excluded,
       objects := fold remove1 excluded (objects s)\<rparr>"
  by (induction excluded arbitrary: s) (simp_all add: print_def)

text \<open>Removing the excluded objects one by one leaves the objects that are not excluded.\<close>

lemma fold_remove1_filter:
  assumes "\<forall>y \<in> set ys. \<not> P y"
  shows "fold remove1 (filter P xs) (ys @ xs) = ys @ filter (\<lambda>x. \<not> P x) xs"
  using assms
proof (induction xs arbitrary: ys)
  case Nil
  then show ?case by simp
next
  case (Cons x xs)
  show ?case
  proof (cases "P x")
    case True
    then have "x \<notin> set ys"
      using Cons.prems by blast
    then have "remove1 x (ys @ x # xs) = ys @ xs"
      by (simp add: remove1_append)
    then show ?thesis
      using True Cons.IH [OF Cons.prems] by simp
  next
    case False
    then have "\<forall>y \<in> set (ys @ [x]). \<not> P y"
      using Cons.prems by simp
    from Cons.IH [OF this] show ?thesis
      using False by simp
  qed
qed



text \<open>
  One call of \<^verbatim>\<open>render_model\<close> on a file that is on disk, with hex counts that are
  not zero: it returns, prints no warning, and writes one image.
\<close>

lemma render_model_ok:
  assumes "blend_files h blend_file = Some loaded"
    and "w \<noteq> 0" and "ht \<noteq> 0"
  shows "\<exists>s' camera lines.
           render_model h blend_file output_name w ht s = Inr s'
         \<and> stdout s' = stdout s @ lines \<and> filter is_warning lines = []
         \<and> rendered s' = rendered s @
             [\<lparr>out_path = path_join (OUTPUT_DIR h) (output_name @ ''.png''),
               out_resolution = (512 * w, 443 * ht),
               out_percentage = 100,
               out_camera = Some camera,
               out_objects = filter (\<lambda>obj. \<not> should_exclude_object obj = Inr True)
                               (not_none loaded)\<rparr>]
         \<and> resolution_x s' = 512 * w \<and> resolution_y s' = 443 * ht
         \<and> resolution_percentage s' = 100
         \<and> created_dirs s' = created_dirs s"
proof -
  define excluded where
    "excluded = filter (\<lambda>obj. should_exclude_object obj = Inr True) (not_none loaded)"
  define kept where
    "kept = filter (\<lambda>obj. \<not> should_exclude_object obj = Inr True) (not_none loaded)"
  define s4 where
    "s4 = (remove_excluded excluded
             ((setup_scene (print (''Rendering '' @ blend_file @ '' -> '' @ output_name) s))
                \<lparr>objects := not_none loaded\<rparr>))
          \<lparr>resolution_x := BASE_WIDTH * w, resolution_y := BASE_HEIGHT * ht,
           resolution_percentage := 100\<rparr>"
  define camera0 where "camera0 = fst (create_camera h w ht s4)"
  define s6 where "s6 = create_lights (snd (create_camera h w ht s4))"
  have link: "link_objects loaded ([], []) = Inr (not_none loaded, excluded)"
    by (simp add: link_objects_result excluded_def)
  have kept: "fold remove1 excluded (not_none loaded) = kept"
    using fold_remove1_filter [of "[]" "\<lambda>obj. should_exclude_object obj = Inr True" "not_none loaded"]
    by (simp add: excluded_def kept_def)
  have res: "resolution_x s6 = 512 * w" "resolution_y s6 = 443 * ht"
    by (simp_all add: s6_def s4_def create_lights_def create_camera_def Let_def BASE_WIDTH_def
        BASE_HEIGHT_443)
  then have "resolution_x s6 \<noteq> 0" "resolution_y s6 \<noteq> 0"
    using assms(2,3) by simp_all
  then obtain camera' where fit: "fit_camera_to_objects camera0 1.2 s6 = Inr camera'"
    using fit_camera_returns by blast
  define lines where
    "lines = [''Rendering '' @ blend_file @ '' -> '' @ output_name] @
             map (\<lambda>obj. ''  Excluding object: '' @ name obj) excluded @
             [''  Saved: '' @ path_join (OUTPUT_DIR h) (output_name @ ''.png'')]"
  define s' where
    "s' = print (''  Saved: '' @ path_join (OUTPUT_DIR h) (output_name @ ''.png''))
            (render (s6\<lparr>scene_camera := Some camera',
                        filepath := path_join (OUTPUT_DIR h) (output_name @ ''.png'')\<rparr>))"
  have run: "render_model h blend_file output_name w ht s = Inr s'"
    using fit
    by (simp add: render_model_def assms(1) Let_def setup_scene_def link ebind_def
        s'_def s6_def camera0_def s4_def split_beta)
  have out: "stdout s' = stdout s @ lines"
    by (simp add: s'_def s6_def s4_def lines_def print_def render_def create_lights_def
        create_camera_def Let_def setup_scene_def remove_excluded_result)
  have nowarn: "filter is_warning lines = []"
    by (auto simp: lines_def filter_empty_conv is_warning_def)
  have img: "rendered s' = rendered s @
             [\<lparr>out_path = path_join (OUTPUT_DIR h) (output_name @ ''.png''),
               out_resolution = (512 * w, 443 * ht),
               out_percentage = 100,
               out_camera = Some camera',
               out_objects = kept\<rparr>]"
    by (simp add: s'_def s6_def s4_def print_def render_def create_lights_def
        create_camera_def Let_def setup_scene_def remove_excluded_result kept BASE_WIDTH_def
        BASE_HEIGHT_443)
  have rest: "resolution_x s' = 512 * w" "resolution_y s' = 443 * ht"
    "resolution_percentage s' = 100" "created_dirs s' = created_dirs s"
    by (simp_all add: s'_def s6_def s4_def print_def render_def create_lights_def
        create_camera_def Let_def setup_scene_def remove_excluded_result BASE_WIDTH_def
        BASE_HEIGHT_443)
  from run out nowarn img rest show ?thesis
    unfolding kept_def by blast
qed

lemma UNIT_CONFIG_nonzero:
  "(blend_name, output_name, w, ht) \<in> set UNIT_CONFIG \<Longrightarrow> w \<noteq> 0 \<and> ht \<noteq> 0"
  by (auto simp: UNIT_CONFIG_def)

text \<open>
  C4. For every entry of the table, with width \<open>w\<close> and height \<open>ht\<close> in hexes, the
  resolution set before the render call, and so the one the image is rendered at, is
  \<open>(512 * w, \<lfloor>512 * 52 / 60\<rfloor> * ht)\<close>, the height constant being truncated once:
  (1024, 443) for 2 by 1 hexes and (512, 443) for 1 by 1.
\<close>

theorem render_resolution:
  assumes "(blend_name, output_name, w, ht) \<in> set UNIT_CONFIG"
    and "blend_files h blend_file = Some loaded"
  shows "\<exists>s' out.
           render_model h blend_file output_name w ht s = Inr s'
         \<and> rendered s' = rendered s @ [out]
         \<and> out_resolution out = (512 * w, \<lfloor>512 * 52 / 60 :: real\<rfloor> * ht)
         \<and> out_percentage out = 100
         \<and> (resolution_x s', resolution_y s') = (512 * w, \<lfloor>512 * 52 / 60 :: real\<rfloor> * ht)
         \<and> (w = 2 \<and> ht = 1 \<longrightarrow> out_resolution out = (1024, 443))
         \<and> (w = 1 \<and> ht = 1 \<longrightarrow> out_resolution out = (512, 443))"
proof -
  have nz: "w \<noteq> 0" "ht \<noteq> 0"
    using UNIT_CONFIG_nonzero [OF assms(1)] by simp_all
  have fl: "\<lfloor>512 * 52 / 60 :: real\<rfloor> = 443"
    by simp
  obtain s' camera where run: "render_model h blend_file output_name w ht s = Inr s'"
    and img: "rendered s' = rendered s @
             [\<lparr>out_path = path_join (OUTPUT_DIR h) (output_name @ ''.png''),
               out_resolution = (512 * w, 443 * ht),
               out_percentage = 100,
               out_camera = Some camera,
               out_objects = filter (\<lambda>obj. \<not> should_exclude_object obj = Inr True)
                               (not_none loaded)\<rparr>]"
    and res: "resolution_x s' = 512 * w" "resolution_y s' = 443 * ht"
    using render_model_ok [OF assms(2) nz, of output_name s] by blast
  show ?thesis
    unfolding fl using run img res by auto
qed

theorem render_resolution_witness:
  "(''3dprint_barge'', ''barge'', 2, 1) \<in> set UNIT_CONFIG
   \<and> blend_files one_missing ''/repo/3Dmodels/3dprint_barge.blend'' =
       Some [Some (mesh_named ''Hull'' (unit_box 1)), None,
             Some (mesh_named ''Socle'' (unit_box 0.01))]
   \<and> (\<exists>s' out.
         render_model one_missing ''/repo/3Dmodels/3dprint_barge.blend'' ''barge'' 2 1 start_state
           = Inr s'
       \<and> rendered s' = [out]
       \<and> out_resolution out = (1024, 443)
       \<and> (resolution_x s', resolution_y s') = (1024, 443))"
proof -
  have e: "(''3dprint_barge'', ''barge'', 2, 1) \<in> set UNIT_CONFIG"
    by (simp add: UNIT_CONFIG_def)
  have f: "blend_files one_missing ''/repo/3Dmodels/3dprint_barge.blend'' =
       Some [Some (mesh_named ''Hull'' (unit_box 1)), None,
             Some (mesh_named ''Socle'' (unit_box 0.01))]"
    by (simp add: one_missing_def)
  have r: "rendered start_state = []"
    by (simp add: start_state_def)
  from render_resolution [OF e f, of start_state]
  have "\<exists>s' out.
         render_model one_missing ''/repo/3Dmodels/3dprint_barge.blend'' ''barge'' 2 1 start_state
           = Inr s'
       \<and> rendered s' = [out]
       \<and> out_resolution out = (1024, 443)
       \<and> (resolution_x s', resolution_y s') = (1024, 443)"
    by (auto simp: r)
  with e f show ?thesis by blast
qed

text \<open>
  C10. The \<open>None\<close> entries of a loaded object list are passed over: the loop links
  exactly the other entries and gives exactly these to the filter, without an error,
  and \<^verbatim>\<open>render_model\<close> does on the list what it does on the list without its
  \<open>None\<close> entries.
\<close>

theorem none_entries_skipped:
  "link_objects loaded (linked, excluded) =
     Inr (linked @ not_none loaded,
          excluded @ filter (\<lambda>obj. should_exclude_object obj = Inr True) (not_none loaded))
   \<and> link_objects loaded (linked, excluded) =
       link_objects (map Some (not_none loaded)) (linked, excluded)
   \<and> render_model (h\<lparr>blend_files := (blend_files h)(blend_file \<mapsto> loaded)\<rparr>)
         blend_file output_name w ht s =
       render_model (h\<lparr>blend_files := (blend_files h)(blend_file \<mapsto> map Some (not_none loaded))\<rparr>)
         blend_file output_name w ht s"
  by (simp add: link_objects_result not_none_map_Some render_model_def create_camera_def
      path_join_def)

section \<open>Properties of the batch driver\<close>








end
